theory Spec2Isabelle
  imports Complex_Main
begin

section \<open>Python values and interpreter primitives\<close>

text \<open>
  The backend is one Python module, \<^verbatim>\<open>backend/index.py\<close>: a set of Flask view
  functions over a chain client (\<^verbatim>\<open>w3\<close>) and one log file. The views are modelled as
  functions from the request payload and the state (log file contents, chain-client
  calls made so far) to an outcome and a new state.

  Floating-point numbers are kept abstract: the type variable \<open>'f\<close> stands for Python's
  \<^verbatim>\<open>float\<close>, and everything the interpreter does with floats is a field of the record
  \<open>'f python\<close> below, passed to every function. A theorem that quantifies over that
  record holds whatever the float operations compute (rounding, infinities and NaN
  included).
\<close>

datatype pyexc =
  ValueError | TypeError | AttributeError | IndexError | OverflowError | OSError | OtherError

text \<open>A raised exception \<open>e\<close>: its class and \<^verbatim>\<open>str(e)\<close>.\<close>

type_synonym exn = "pyexc \<times> string"

text \<open>The values \<^verbatim>\<open>request.get_json()\<close> can hold, which are also what \<^verbatim>\<open>jsonify\<close> is given.\<close>

datatype 'f pyval =
    PNone
  | PBool bool
  | PInt int
  | PFloat 'f
  | PStr string
  | PList "'f pyval list"
  | PDict "(string \<times> 'f pyval) list"

type_synonym 'f pydict = "(string \<times> 'f pyval) list"

record 'f python =
  float_of_str :: "string \<Rightarrow> 'f option"
  str_of_float :: "'f \<Rightarrow> string"
  bool_of_float :: "'f \<Rightarrow> bool"
  float_of_int :: "int \<Rightarrow> 'f"
  float_add :: "'f \<Rightarrow> 'f \<Rightarrow> 'f"
  float_truediv :: "'f \<Rightarrow> 'f \<Rightarrow> 'f"
  float_mul :: "'f \<Rightarrow> 'f \<Rightarrow> 'f"
  float_gt :: "'f \<Rightarrow> 'f \<Rightarrow> bool"
  float_lt :: "'f \<Rightarrow> 'f \<Rightarrow> bool"
  float_1_1 :: "'f"
  float_0_9 :: "'f"
  int_truediv :: "int \<Rightarrow> int \<Rightarrow> exn + 'f"
  scaled_int :: "'f pyval \<Rightarrow> int \<Rightarrow> exn + int"
  repr_compound :: "'f pyval \<Rightarrow> string"

text \<open>
  \<open>float_of_str\<close> is \<^verbatim>\<open>float(s)\<close> (\<open>None\<close>: ValueError), \<open>str_of_float\<close> is \<^verbatim>\<open>str(x)\<close>,
  \<open>bool_of_float\<close> is truthiness, \<open>float_1_1\<close> and \<open>float_0_9\<close> are the literals \<^verbatim>\<open>1.1\<close> and
  \<^verbatim>\<open>0.9\<close>, \<open>int_truediv a b\<close> is \<^verbatim>\<open>a / b\<close> on two ints, \<open>scaled_int v bal\<close> is
  \<^verbatim>\<open>int(v * bal / 10**18)\<close> for a payload value \<open>v\<close> and an int \<open>bal\<close>, and \<open>repr_compound\<close>
  is \<^verbatim>\<open>str\<close> of a list or dict.
\<close>

subsection \<open>Dictionaries, truthiness, str\<close>

text \<open>\<^verbatim>\<open>d.get(k)\<close>: the first binding of \<open>k\<close>, or \<^verbatim>\<open>None\<close>.\<close>

definition dict_get :: "'f pydict \<Rightarrow> string \<Rightarrow> 'f pyval" where
  "dict_get d k = (case map_of d k of None \<Rightarrow> PNone | Some v \<Rightarrow> v)"

fun truthy :: "'f python \<Rightarrow> 'f pyval \<Rightarrow> bool" where
  "truthy py PNone = False"
| "truthy py (PBool b) = b"
| "truthy py (PInt i) = (i \<noteq> 0)"
| "truthy py (PFloat x) = bool_of_float py x"
| "truthy py (PStr s) = (s \<noteq> [])"
| "truthy py (PList xs) = (xs \<noteq> [])"
| "truthy py (PDict d) = (d \<noteq> [])"

text \<open>\<^verbatim>\<open>all([...])\<close> on a list of values.\<close>

definition py_all :: "'f python \<Rightarrow> 'f pyval list \<Rightarrow> bool" where
  "py_all py vs = list_all (truthy py) vs"

definition digit_char :: "int \<Rightarrow> char" where
  "digit_char d = char_of (48 + d)"

text \<open>The decimal digits of a non-negative int.\<close>

function str_of_nat :: "int \<Rightarrow> string" where
  "str_of_nat n = (if n < 10 then [digit_char n] else str_of_nat (n div 10) @ [digit_char (n mod 10)])"
  by pat_completeness auto
termination
  by (relation "measure nat") auto

declare str_of_nat.simps [simp del]

definition str_of_int :: "int \<Rightarrow> string" where
  "str_of_int i = (if i < 0 then CHR ''-'' # str_of_nat (- i) else str_of_nat i)"

fun py_str :: "'f python \<Rightarrow> 'f pyval \<Rightarrow> string" where
  "py_str py PNone = ''None''"
| "py_str py (PBool b) = (if b then ''True'' else ''False'')"
| "py_str py (PInt i) = str_of_int i"
| "py_str py (PFloat x) = str_of_float py x"
| "py_str py (PStr s) = s"
| "py_str py (PList xs) = repr_compound py (PList xs)"
| "py_str py (PDict d) = repr_compound py (PDict d)"

fun type_name :: "'f pyval \<Rightarrow> string" where
  "type_name PNone = ''NoneType''"
| "type_name (PBool b) = ''bool''"
| "type_name (PInt i) = ''int''"
| "type_name (PFloat x) = ''float''"
| "type_name (PStr s) = ''str''"
| "type_name (PList xs) = ''list''"
| "type_name (PDict d) = ''dict''"

subsection \<open>Strings: strip, split, int\<close>

text \<open>
  The log file is read as ASCII text. \<open>is_space\<close> is \<^verbatim>\<open>str.isspace\<close> on ASCII: tab, LF, VT,
  FF, CR, the four separators 0x1C to 0x1F, and space.
\<close>

definition is_space :: "char \<Rightarrow> bool" where
  "is_space c = (let n = (of_char c :: nat) in (9 \<le> n \<and> n \<le> 13) \<or> (28 \<le> n \<and> n \<le> 32))"

definition strip :: "string \<Rightarrow> string" where
  "strip s = rev (dropWhile is_space (rev (dropWhile is_space s)))"

text \<open>\<^verbatim>\<open>s.split(sep)\<close> for a one-character separator; never the empty list.\<close>

fun split_on :: "char \<Rightarrow> string \<Rightarrow> string list" where
  "split_on sep [] = [[]]"
| "split_on sep (c # cs) =
     (if c = sep then [] # split_on sep cs
      else (case split_on sep cs of [] \<Rightarrow> [[c]] | f # fs \<Rightarrow> (c # f) # fs))"

definition is_digit :: "char \<Rightarrow> bool" where
  "is_digit c = (let n = (of_char c :: nat) in 48 \<le> n \<and> n \<le> 57)"

definition digit_val :: "char \<Rightarrow> int" where
  "digit_val c = of_char c - 48"

text \<open>
  Decimal digits with single underscores between digits, as \<^verbatim>\<open>int\<close> accepts them. The
  interpreter's optional limit on the number of digits is not modelled.
\<close>

fun parse_digits :: "int \<Rightarrow> string \<Rightarrow> int option" where
  "parse_digits acc [] = Some acc"
| "parse_digits acc (c # cs) =
     (if is_digit c then parse_digits (10 * acc + digit_val c) cs
      else if c = CHR ''_'' then
        (case cs of [] \<Rightarrow> None | d # _ \<Rightarrow> if is_digit d then parse_digits acc cs else None)
      else None)"

definition parse_nat :: "string \<Rightarrow> int option" where
  "parse_nat s = (case s of [] \<Rightarrow> None | c # _ \<Rightarrow> if is_digit c then parse_digits 0 s else None)"

text \<open>\<^verbatim>\<open>int(s)\<close> for a string: \<open>None\<close> stands for ValueError.\<close>

definition py_int :: "string \<Rightarrow> int option" where
  "py_int s =
     (case strip s of
        [] \<Rightarrow> None
      | c # r \<Rightarrow>
          if c = CHR ''-'' then map_option uminus (parse_nat r)
          else if c = CHR ''+'' then parse_nat r
          else parse_nat (c # r))"

section \<open>The log file and its reader\<close>

text \<open>
  \<^verbatim>\<open>for line in f\<close> on a file opened in text mode: the lines of the file, where LF, CR and
  CR LF each end a line. The terminators are left out, since every line is stripped
  before use.
\<close>

fun lines_from :: "string \<Rightarrow> string \<Rightarrow> string list" where
  "lines_from cur [] = (if cur = [] then [] else [rev cur])"
| "lines_from cur (c # cs) =
     (if c = CHR 0x0A then rev cur # lines_from [] cs
      else if c = CHR 0x0D then
        (case cs of
           [] \<Rightarrow> [rev cur]
         | d # ds \<Rightarrow> if d = CHR 0x0A then rev cur # lines_from [] ds else rev cur # lines_from [] cs)
      else lines_from (c # cur) cs)"

definition file_lines :: "string \<Rightarrow> string list" where
  "file_lines content = lines_from [] content"

type_synonym 'f entry = "int \<times> 'f \<times> 'f"

text \<open>
  One iteration of the loop of \<^verbatim>\<open>get_rebalance_insights\<close>:
  \<^verbatim>\<open>timestamp, amount_a, amount_b = line.strip().split(',')\<close> and then
  \<^verbatim>\<open>(int(timestamp), float(amount_a), float(amount_b))\<close>. The unpacking and the three
  conversions each raise ValueError.
\<close>

definition parse_line :: "'f python \<Rightarrow> string \<Rightarrow> pyexc + 'f entry" where
  "parse_line py line =
     (case split_on CHR '','' (strip line) of
        [timestamp, amount_a, amount_b] \<Rightarrow>
          (case py_int timestamp of
             None \<Rightarrow> Inl ValueError
           | Some t \<Rightarrow>
               (case float_of_str py amount_a of
                  None \<Rightarrow> Inl ValueError
                | Some a \<Rightarrow>
                    (case float_of_str py amount_b of
                       None \<Rightarrow> Inl ValueError
                     | Some b \<Rightarrow> Inr (t, a, b))))
      | _ \<Rightarrow> Inl ValueError)"

text \<open>The loop: \<open>data\<close> is the list built so far; the first exception ends it.\<close>

fun read_lines :: "'f python \<Rightarrow> 'f entry list \<Rightarrow> string list \<Rightarrow> pyexc + 'f entry list" where
  "read_lines py data [] = Inr data"
| "read_lines py data (line # rest) =
     (case parse_line py line of
        Inl e \<Rightarrow> Inl e
      | Inr entry \<Rightarrow> read_lines py (data @ [entry]) rest)"

definition read_log :: "'f python \<Rightarrow> string \<Rightarrow> pyexc + 'f entry list" where
  "read_log py content = read_lines py [] (file_lines content)"

section \<open>The rebalance signal\<close>

type_synonym 'f response = "'f pydict \<times> int"

definition amount_a_of :: "'f entry \<Rightarrow> 'f" where
  "amount_a_of x = fst (snd x)"

definition amount_b_of :: "'f entry \<Rightarrow> 'f" where
  "amount_b_of x = snd (snd x)"

text \<open>\<^verbatim>\<open>sum(...)\<close> of floats: the start value is the int 0.\<close>

definition py_sum :: "'f python \<Rightarrow> 'f list \<Rightarrow> 'f" where
  "py_sum py xs = foldl (float_add py) (float_of_int py 0) xs"

definition window_size :: nat where
  "window_size = 10"

text \<open>\<^verbatim>\<open>data[-window_size:]\<close>, used only when \<^verbatim>\<open>len(data) >= window_size\<close>.\<close>

definition last_window :: "'a list \<Rightarrow> 'a list" where
  "last_window data = drop (length data - window_size) data"

definition avg_a :: "'f python \<Rightarrow> 'f entry list \<Rightarrow> 'f" where
  "avg_a py data =
     float_truediv py (py_sum py (map amount_a_of (last_window data))) (float_of_int py (int window_size))"

definition avg_b :: "'f python \<Rightarrow> 'f entry list \<Rightarrow> 'f" where
  "avg_b py data =
     float_truediv py (py_sum py (map amount_b_of (last_window data))) (float_of_int py (int window_size))"

text \<open>The three conditions of the \<^verbatim>\<open>if\<close>/\<^verbatim>\<open>elif\<close> chain, on \<^verbatim>\<open>data[-1]\<close>.\<close>

definition buy_cond :: "'f python \<Rightarrow> 'f entry list \<Rightarrow> bool" where
  "buy_cond py data =
     float_gt py (amount_a_of (last data)) (float_mul py (avg_a py data) (float_1_1 py))"

definition sell_cond :: "'f python \<Rightarrow> 'f entry list \<Rightarrow> bool" where
  "sell_cond py data =
     float_gt py (amount_b_of (last data)) (float_mul py (avg_b py data) (float_1_1 py))"

definition rebalance_cond :: "'f python \<Rightarrow> 'f entry list \<Rightarrow> bool" where
  "rebalance_cond py data =
     (float_lt py (amount_a_of (last data)) (float_mul py (avg_a py data) (float_0_9 py))
      \<or> float_lt py (amount_b_of (last data)) (float_mul py (avg_b py data) (float_0_9 py)))"

text \<open>The flags \<open>(buy, sell, rebalance)\<close> after the chain.\<close>

definition decide :: "'f python \<Rightarrow> 'f entry list \<Rightarrow> bool \<times> bool \<times> bool" where
  "decide py data =
     (if length data \<ge> window_size then
        (if buy_cond py data then (True, False, False)
         else if sell_cond py data then (False, True, False)
         else if rebalance_cond py data then (False, False, True)
         else (False, False, False))
      else (False, False, False))"

definition insights_body :: "bool \<times> bool \<times> bool \<Rightarrow> 'f pydict" where
  "insights_body d =
     (case d of (buy, sell, rebalance) \<Rightarrow>
        [(''buy'', PBool buy), (''sell'', PBool sell), (''rebalance'', PBool rebalance)])"

text \<open>
  \<^verbatim>\<open>get_rebalance_insights()\<close> on the contents of the log file. The function has no
  \<^verbatim>\<open>try\<close>: \<open>Inl\<close> is an exception that leaves it, \<open>Inr\<close> is the tuple it returns.
\<close>

definition get_rebalance_insights :: "'f python \<Rightarrow> string \<Rightarrow> pyexc + 'f response" where
  "get_rebalance_insights py content =
     (case read_log py content of
        Inl e \<Rightarrow> Inl e
      | Inr data \<Rightarrow> Inr (insights_body (decide py data), 200))"

section \<open>The chain client and the state of a request\<close>

text \<open>
  The chain client \<^verbatim>\<open>w3\<close>, the ABI files and the clock are outside the program. Each
  operation the views invoke on them is a field of the record \<open>'f world\<close>, giving the
  operation's result for its arguments (\<open>Inl\<close>: the exception it raises). The
  configuration (\<^verbatim>\<open>config.json\<close>) is taken to hold every key the views look up, and the
  log file to exist when it is read. The request body is taken to be a JSON object.
\<close>

datatype 'f tx = Transfer "'f pyval" int | Built string

datatype 'f call =
    ToWei string
  | SendTransaction "'f tx"
  | WaitForReceipt string
  | GetBalance "'f pyval"
  | Contract
  | AddLiquidityTransact "'f pyval" "'f pyval" int int int
  | GetAmountsOut int "'f pyval list"
  | SwapExactTokens int int "'f pyval list" int
  | GetTransactionCount
  | BuildTransaction int
  | SignTransaction string
  | SendRawTransaction string
  | LatestAnswer

record 'f world =
  time_time :: "'f"
  int_time :: int
  wallet_address :: string
  dai_address :: string
  pol_address :: string
  to_wei :: "string \<Rightarrow> exn + int"
  eth_send_transaction :: "'f tx \<Rightarrow> exn + string"
  eth_wait_for_transaction_receipt :: "string \<Rightarrow> exn + string"
  eth_get_balance :: "'f pyval \<Rightarrow> exn + int"
  router_contract :: "exn + unit"
  price_feed_contract :: "exn + unit"
  addLiquidity_transact :: "'f pyval \<Rightarrow> 'f pyval \<Rightarrow> int \<Rightarrow> int \<Rightarrow> int \<Rightarrow> exn + string"
  getAmountsOut_call :: "int \<Rightarrow> 'f pyval list \<Rightarrow> exn + int list"
  swapExactTokens :: "int \<Rightarrow> int \<Rightarrow> 'f pyval list \<Rightarrow> int \<Rightarrow> exn + unit"
  eth_get_transaction_count :: "exn + int"
  buildTransaction :: "int \<Rightarrow> exn + string"
  sign_transaction :: "string \<Rightarrow> exn + string"
  eth_send_raw_transaction :: "string \<Rightarrow> exn + string"
  latestAnswer_call :: "exn + int"
  open_log_append :: "exn + unit"

text \<open>
  \<open>time_time\<close> is \<^verbatim>\<open>time.time()\<close> where a log line is written and \<open>int_time\<close> is
  \<^verbatim>\<open>int(time.time())\<close> where a deadline is computed. A transaction hash is held as its
  \<^verbatim>\<open>.hex()\<close> string; \<open>eth_wait_for_transaction_receipt\<close> gives the \<^verbatim>\<open>transactionHash\<close> of
  the receipt. \<open>router_contract\<close> and \<open>price_feed_contract\<close> stand for loading the ABI
  file and \<^verbatim>\<open>w3.eth.contract(...)\<close>. \<open>open_log_append\<close> is the result of
  \<^verbatim>\<open>open(log_file, 'a')\<close> where a view writes an entry line: \<open>Inl\<close> is the OSError it raises.

  The state: the contents of the log file, and every call made on the chain client
  so far, each with whether it returned.
\<close>

record 'f state =
  log_file :: string
  calls :: "('f call \<times> bool) list"

datatype 'f outcome = Returned "'f pydict" int | ReturnedNone | Uncaught pyexc

text \<open>
  \<open>Returned body status\<close> is \<^verbatim>\<open>return jsonify(body), status\<close>; \<open>ReturnedNone\<close> is a
  view that ends without \<^verbatim>\<open>return\<close>; \<open>Uncaught\<close> is an exception that leaves the view.
\<close>

type_synonym ('f, 'a) act = "'f state \<Rightarrow> (exn + 'a) \<times> 'f state"

definition ret :: "'a \<Rightarrow> ('f, 'a) act" where
  "ret x s = (Inr x, s)"

definition lift :: "exn + 'a \<Rightarrow> ('f, 'a) act" where
  "lift r s = (r, s)"

definition then_do :: "('f, 'a) act \<Rightarrow> ('a \<Rightarrow> ('f, 'b) act) \<Rightarrow> ('f, 'b) act" where
  "then_do m k s = (case m s of (Inl e, s') \<Rightarrow> (Inl e, s') | (Inr x, s') \<Rightarrow> k x s')"

definition client :: "'f call \<Rightarrow> exn + 'a \<Rightarrow> ('f, 'a) act" where
  "client c r s = (r, s\<lparr>calls := calls s @ [(c, \<not> isl r)]\<rparr>)"

definition newline :: string where
  "newline = [CHR 0x0A]"

text \<open>
  \<^verbatim>\<open>with open(log_file, 'a') as f: f.write(txt)\<close>. When the file cannot be opened the
  exception is raised and nothing is written.
\<close>

definition file_append :: "'f world \<Rightarrow> string \<Rightarrow> ('f, unit) act" where
  "file_append w txt s =
     (case open_log_append w of
        Inl e \<Rightarrow> (Inl e, s)
      | Inr u \<Rightarrow> (Inr (), s\<lparr>log_file := log_file s @ txt\<rparr>))"

text \<open>
  \<^verbatim>\<open>logger.info(msg)\<close> and \<^verbatim>\<open>logger.error(msg)\<close>: the module gives the logger one handler,
  \<^verbatim>\<open>logging.FileHandler(log_file)\<close>, at level INFO and with no formatter, so each message
  is appended to the same log file, followed by a newline. The handler keeps the stream
  it opened when the module was loaded, and the logging module does not pass a failure
  of a handler on to the caller.
\<close>

definition logger_write :: "string \<Rightarrow> ('f, unit) act" where
  "logger_write msg s = (Inr (), s\<lparr>log_file := log_file s @ msg @ newline\<rparr>)"

text \<open>\<^verbatim>\<open>try: body except Exception as e: handler\<close>.\<close>

definition try_except ::
  "('f, 'r) act \<Rightarrow> (exn \<Rightarrow> 'f state \<Rightarrow> 'r \<times> 'f state) \<Rightarrow> 'f state \<Rightarrow> 'r \<times> 'f state" where
  "try_except body handler s =
     (case body s of (Inr r, s') \<Rightarrow> (r, s') | (Inl e, s') \<Rightarrow> handler e s')"

definition is_None :: "'f pyval \<Rightarrow> bool" where
  "is_None v = (case v of PNone \<Rightarrow> True | _ \<Rightarrow> False)"

definition missing_parameters :: "'f pydict" where
  "missing_parameters = [(''error'', PStr ''Missing required parameters'')]"

definition error_body :: "exn \<Rightarrow> 'f pydict" where
  "error_body e = [(''error'', PStr (snd e))]"

definition hash_body :: "string \<Rightarrow> 'f pydict" where
  "hash_body h = [(''transaction_hash'', PStr h)]"

text \<open>The \<^verbatim>\<open>except\<close> block shared by the views: log the error, answer 500.\<close>

definition on_error :: "string \<Rightarrow> exn \<Rightarrow> 'f state \<Rightarrow> 'f outcome \<times> 'f state" where
  "on_error prefix e s = (Returned (error_body e) 500, snd (logger_write (prefix @ snd e) s))"

text \<open>\<^verbatim>\<open>xs[-1]\<close>.\<close>

definition py_last :: "int list \<Rightarrow> exn + int" where
  "py_last xs = (if xs = [] then Inl (IndexError, ''list index out of range'') else Inr (last xs))"

section \<open>The views\<close>

subsection \<open>POST /send\<close>

definition send_transaction ::
  "'f python \<Rightarrow> 'f world \<Rightarrow> 'f pydict \<Rightarrow> 'f state \<Rightarrow> 'f outcome \<times> 'f state" where
  "send_transaction py w data s =
     (let recipient_address = dict_get data ''recipient_address'';
          amount_in_pol = dict_get data ''amount_in_pol''
      in if is_None recipient_address \<or> is_None amount_in_pol then
           (Returned missing_parameters 400, s)
         else
           try_except
             (then_do (client (ToWei (py_str py amount_in_pol)) (to_wei w (py_str py amount_in_pol))) (\<lambda>v.
              then_do (client (SendTransaction (Transfer recipient_address v))
                         (eth_send_transaction w (Transfer recipient_address v))) (\<lambda>tx_hash.
              then_do (client (WaitForReceipt tx_hash) (eth_wait_for_transaction_receipt w tx_hash)) (\<lambda>_.
              then_do (logger_write (''Sent '' @ py_str py amount_in_pol @ '' POL to ''
                         @ py_str py recipient_address)) (\<lambda>_.
              then_do (file_append w (str_of_float py (time_time w) @ '','' @ py_str py amount_in_pol
                         @ '','' @ py_str py recipient_address @ newline)) (\<lambda>_.
              ret (Returned (hash_body tx_hash) 200)))))))
             (on_error ''Error sending transaction: '') s)"

subsection \<open>GET /get-pol-price\<close>

text \<open>
  The module defines \<^verbatim>\<open>get_pol_price\<close> twice; the name is bound to the second
  definition when a view runs, and that one is modelled. Both return a pair of a
  response and a status on every path.
\<close>

definition get_pol_price :: "'f python \<Rightarrow> 'f world \<Rightarrow> 'f state \<Rightarrow> 'f response \<times> 'f state" where
  "get_pol_price py w s =
     try_except
       (then_do (client Contract (price_feed_contract w)) (\<lambda>_.
        then_do (client LatestAnswer (latestAnswer_call w)) (\<lambda>answer.
        then_do (lift (int_truediv py answer (10 ^ 8))) (\<lambda>price.
        ret ([(''price'', PFloat price)], 200)))))
       (\<lambda>e s'. ((error_body e, 500), snd (logger_write (''Error getting POL price: '' @ snd e) s')))
       s"

subsection \<open>POST /buy-pol\<close>

definition quoted :: "string \<Rightarrow> string" where
  "quoted s = CHR 0x27 # s @ [CHR 0x27]"

text \<open>
  \<^verbatim>\<open>amount_in_usd / pol_price\<close> where \<^verbatim>\<open>pol_price\<close> is a tuple: no type a JSON value can
  have divides by a tuple, and a tuple has no reflected division, so the interpreter
  raises TypeError.
\<close>

definition truediv_by_tuple :: "'f pyval \<Rightarrow> 'f response \<Rightarrow> exn + 'f pyval" where
  "truediv_by_tuple v t =
     Inl (TypeError, ''unsupported operand type(s) for /: '' @ quoted (type_name v) @ '' and ''
            @ quoted ''tuple'')"

definition buy_pol ::
  "'f python \<Rightarrow> 'f world \<Rightarrow> 'f pydict \<Rightarrow> 'f state \<Rightarrow> 'f outcome \<times> 'f state" where
  "buy_pol py w data s =
     (let amount_in_usd = dict_get data ''amount_in_usd''
      in if is_None amount_in_usd then (Returned missing_parameters 400, s)
         else
           try_except
             (then_do (\<lambda>s0. case get_pol_price py w s0 of (r, s1) \<Rightarrow> (Inr r, s1)) (\<lambda>pol_price.
              then_do (lift (truediv_by_tuple amount_in_usd pol_price)) (\<lambda>amount_in_pol.
              then_do (client Contract (router_contract w)) (\<lambda>_.
              let path = [PStr (dai_address w), PStr (pol_address w)] in
              then_do (client (ToWei (py_str py amount_in_usd)) (to_wei w (py_str py amount_in_usd))) (\<lambda>wei_q.
              then_do (client (GetAmountsOut wei_q path) (getAmountsOut_call w wei_q path)) (\<lambda>amounts.
              then_do (lift (py_last amounts)) (\<lambda>amount_out.
              then_do (client (ToWei (py_str py amount_in_usd)) (to_wei w (py_str py amount_in_usd))) (\<lambda>wei_in.
              then_do (client (SwapExactTokens wei_in amount_out path (int_time w + 100))
                         (swapExactTokens w wei_in amount_out path (int_time w + 100))) (\<lambda>_.
              then_do (client GetTransactionCount (eth_get_transaction_count w)) (\<lambda>nonce.
              then_do (client (BuildTransaction nonce) (buildTransaction w nonce)) (\<lambda>tx.
              then_do (client (SignTransaction tx) (sign_transaction w tx)) (\<lambda>signed_tx.
              then_do (client (SendRawTransaction signed_tx) (eth_send_raw_transaction w signed_tx)) (\<lambda>tx_hash.
              then_do (client (WaitForReceipt tx_hash) (eth_wait_for_transaction_receipt w tx_hash)) (\<lambda>_.
              then_do (logger_write (''Bought '' @ py_str py amount_in_pol @ '' POL with ''
                         @ py_str py amount_in_usd @ '' USD'')) (\<lambda>_.
              then_do (file_append w (str_of_float py (time_time w) @ '','' @ py_str py amount_in_pol
                         @ '','' @ py_str py amount_in_usd @ newline)) (\<lambda>_.
              ret (Returned (hash_body tx_hash) 200)))))))))))))))))
             (on_error ''Error buying POL: '') s)"

subsection \<open>POST /rebalance\<close>

definition rebalance ::
  "'f python \<Rightarrow> 'f world \<Rightarrow> 'f pydict \<Rightarrow> 'f state \<Rightarrow> 'f outcome \<times> 'f state" where
  "rebalance py w data s =
     (let token_a = dict_get data ''token_a'';
          token_b = dict_get data ''token_b'';
          amount_a = dict_get data ''amount_a'';
          amount_b = dict_get data ''amount_b''
      in if \<not> py_all py [token_a, token_b, amount_a, amount_b] then
           (Returned missing_parameters 400, s)
         else
           try_except
             (then_do (client (GetBalance token_a) (eth_get_balance w token_a)) (\<lambda>token_a_balance.
              then_do (client (GetBalance token_b) (eth_get_balance w token_b)) (\<lambda>token_b_balance.
              then_do (lift (scaled_int py amount_a token_a_balance)) (\<lambda>amount_a_to_sell.
              then_do (lift (scaled_int py amount_b token_b_balance)) (\<lambda>amount_b_to_buy.
              then_do (client Contract (router_contract w)) (\<lambda>_.
              then_do (client (AddLiquidityTransact token_a token_b amount_a_to_sell amount_b_to_buy
                                 (int_time w + 60))
                         (addLiquidity_transact w token_a token_b amount_a_to_sell amount_b_to_buy
                            (int_time w + 60))) (\<lambda>tx.
              then_do (client (WaitForReceipt tx) (eth_wait_for_transaction_receipt w tx)) (\<lambda>receipt_hash.
              then_do (logger_write (''Rebalanced tokens: '' @ str_of_int amount_a_to_sell @ '' of ''
                         @ py_str py token_a @ '', '' @ str_of_int amount_b_to_buy @ '' of ''
                         @ py_str py token_b)) (\<lambda>_.
              then_do (file_append w (str_of_float py (time_time w) @ '','' @ str_of_int amount_a_to_sell
                         @ '','' @ str_of_int amount_b_to_buy @ newline)) (\<lambda>_.
              ret (Returned (hash_body receipt_hash) 200)))))))))))
             (on_error ''Error rebalancing tokens: '') s)"

subsection \<open>POST /auto-rebalance\<close>

text \<open>
  \<^verbatim>\<open>insights_response.json()\<close>, where \<^verbatim>\<open>insights_response\<close> is what
  \<^verbatim>\<open>get_rebalance_insights()\<close> returned: a tuple of a response and a status. A tuple has
  no attribute \<^verbatim>\<open>json\<close>, so the attribute lookup raises AttributeError.
\<close>

definition tuple_json :: "'f response \<Rightarrow> pyexc + 'f pydict" where
  "tuple_json insights_response = Inl AttributeError"

text \<open>The rest of the view, from \<^verbatim>\<open>if insights.get('rebalance'):\<close> on.\<close>

definition auto_rebalance_body ::
  "'f python \<Rightarrow> 'f world \<Rightarrow> 'f pydict \<Rightarrow> 'f pydict \<Rightarrow> 'f state \<Rightarrow> 'f outcome \<times> 'f state" where
  "auto_rebalance_body py w insights data s =
     (if truthy py (dict_get insights ''rebalance'') then
        (let token_a = dict_get data ''token_a'';
             token_b = dict_get data ''token_b'';
             amount_a = dict_get data ''amount_a'';
             amount_b = dict_get data ''amount_b''
         in if \<not> py_all py [token_a, token_b, amount_a, amount_b] then
              (Returned missing_parameters 400, s)
            else
              try_except
                (then_do (client (GetBalance token_a) (eth_get_balance w token_a)) (\<lambda>token_a_balance.
                 then_do (client (GetBalance token_b) (eth_get_balance w token_b)) (\<lambda>token_b_balance.
                 then_do (lift (scaled_int py amount_a token_a_balance)) (\<lambda>amount_a_to_sell.
                 then_do (lift (scaled_int py amount_b token_b_balance)) (\<lambda>amount_b_to_buy.
                 then_do (client Contract (router_contract w)) (\<lambda>_.
                 let path = [token_a, token_b] in
                 then_do (client (ToWei (str_of_int amount_a_to_sell))
                            (to_wei w (str_of_int amount_a_to_sell))) (\<lambda>wei_q.
                 then_do (client (GetAmountsOut wei_q path) (getAmountsOut_call w wei_q path)) (\<lambda>amounts.
                 then_do (lift (py_last amounts)) (\<lambda>amount_out.
                 then_do (client (ToWei (str_of_int amount_a_to_sell))
                            (to_wei w (str_of_int amount_a_to_sell))) (\<lambda>wei_in.
                 then_do (client (SwapExactTokens wei_in amount_out path (int_time w + 100))
                            (swapExactTokens w wei_in amount_out path (int_time w + 100))) (\<lambda>_.
                 then_do (client GetTransactionCount (eth_get_transaction_count w)) (\<lambda>nonce.
                 then_do (client (BuildTransaction nonce) (buildTransaction w nonce)) (\<lambda>tx.
                 then_do (client (SendTransaction (Built tx)) (eth_send_transaction w (Built tx))) (\<lambda>tx_hash.
                 then_do (client (WaitForReceipt tx_hash) (eth_wait_for_transaction_receipt w tx_hash)) (\<lambda>_.
                 then_do (logger_write (''Auto-rebalanced '' @ str_of_int amount_a_to_sell @ '' ''
                            @ py_str py token_a @ '' for '' @ str_of_int amount_b_to_buy @ '' ''
                            @ py_str py token_b)) (\<lambda>_.
                 ret (Returned (hash_body tx_hash) 200)))))))))))))))))
                (on_error ''Error auto-rebalancing: '') s)
      else (ReturnedNone, s))"

definition auto_rebalance ::
  "'f python \<Rightarrow> 'f world \<Rightarrow> 'f pydict \<Rightarrow> 'f state \<Rightarrow> 'f outcome \<times> 'f state" where
  "auto_rebalance py w data s =
     (case get_rebalance_insights py (log_file s) of
        Inl e \<Rightarrow> (Uncaught e, s)
      | Inr insights_response \<Rightarrow>
          (case tuple_json insights_response of
             Inl e \<Rightarrow> (Uncaught e, s)
           | Inr insights \<Rightarrow> auto_rebalance_body py w insights data s))"

subsection \<open>The mutating endpoints\<close>

datatype endpoint = Send | BuyPol | Rebalance | AutoRebalance

fun handle ::
  "endpoint \<Rightarrow> 'f python \<Rightarrow> 'f world \<Rightarrow> 'f pydict \<Rightarrow> 'f state \<Rightarrow> 'f outcome \<times> 'f state" where
  "handle Send = send_transaction"
| "handle BuyPol = buy_pol"
| "handle Rebalance = rebalance"
| "handle AutoRebalance = auto_rebalance"

text \<open>The fields each view reads from the payload.\<close>

fun required_fields :: "endpoint \<Rightarrow> string list" where
  "required_fields Send = [''recipient_address'', ''amount_in_pol'']"
| "required_fields BuyPol = [''amount_in_usd'']"
| "required_fields Rebalance = [''token_a'', ''token_b'', ''amount_a'', ''amount_b'']"
| "required_fields AutoRebalance = [''token_a'', ''token_b'', ''amount_a'', ''amount_b'']"

text \<open>The calls that submit a transaction to the chain.\<close>

fun is_submit :: "'f call \<Rightarrow> bool" where
  "is_submit (SendTransaction t) = True"
| "is_submit (SendRawTransaction r) = True"
| "is_submit (AddLiquidityTransact a b x y d) = True"
| "is_submit c = False"

section \<open>The log reader, in the words of the specification\<close>


section \<open>A concrete interpreter and chain, to run the views\<close>

text \<open>
  An instance of \<open>'f python\<close> over exact decimals (\<open>rat\<close>), and a chain on which every
  call succeeds. They are used only to evaluate the views on concrete requests; on
  the values used below they print and parse as CPython does.
\<close>

fun frac_digits :: "nat \<Rightarrow> int \<Rightarrow> int \<Rightarrow> string" where
  "frac_digits 0 r d = []"
| "frac_digits (Suc n) r d =
     digit_char (10 * r div d) # (if 10 * r mod d = 0 then [] else frac_digits n (10 * r mod d) d)"

definition dec_str :: "rat \<Rightarrow> string" where
  "dec_str q =
     (case quotient_of q of (n, d) \<Rightarrow>
        (if n < 0 then ''-'' else []) @ str_of_nat (\<bar>n\<bar> div d) @ ''.''
          @ frac_digits 17 (\<bar>n\<bar> mod d) d)"

definition digits_val :: "string \<Rightarrow> int option" where
  "digits_val s = (if list_all is_digit s then parse_digits 0 s else None)"

definition dec_of_str :: "string \<Rightarrow> rat option" where
  "dec_of_str s =
     (let t = strip s;
          signed = (t \<noteq> [] \<and> (hd t = CHR ''-'' \<or> hd t = CHR ''+''));
          sg = (if t \<noteq> [] \<and> hd t = CHR ''-'' then - 1 else 1 :: rat);
          body = (if signed then tl t else t)
      in case split_on CHR ''.'' body of
           [ip] \<Rightarrow> if ip = [] then None else map_option (\<lambda>n. sg * of_int n) (digits_val ip)
         | [ip, fp] \<Rightarrow>
             if ip = [] \<and> fp = [] then None
             else (case (digits_val ip, digits_val fp) of
                     (Some i, Some f) \<Rightarrow> Some (sg * (of_int i + of_int f / 10 ^ length fp))
                   | _ \<Rightarrow> None)
         | _ \<Rightarrow> None)"

definition trunc :: "rat \<Rightarrow> int" where
  "trunc q = (if q < 0 then - \<lfloor>- q\<rfloor> else \<lfloor>q\<rfloor>)"

definition dec_scaled_int :: "rat pyval \<Rightarrow> int \<Rightarrow> exn + int" where
  "dec_scaled_int v bal =
     (case v of
        PInt a \<Rightarrow> Inr (trunc (of_int (a * bal) / 10 ^ 18))
      | PFloat x \<Rightarrow> Inr (trunc (x * of_int bal / 10 ^ 18))
      | PBool b \<Rightarrow> Inr (trunc (of_int ((if b then 1 else 0) * bal) / 10 ^ 18))
      | _ \<Rightarrow> Inl (TypeError, ''unsupported operand type(s) for /''))"

definition dec_python :: "rat python" where
  "dec_python =
     \<lparr> float_of_str = dec_of_str,
       str_of_float = dec_str,
       bool_of_float = (\<lambda>x. x \<noteq> 0),
       float_of_int = of_int,
       float_add = (+),
       float_truediv = (/),
       float_mul = (*),
       float_gt = (\<lambda>x y. y < x),
       float_lt = (<),
       float_1_1 = 11 / 10,
       float_0_9 = 9 / 10,
       int_truediv = (\<lambda>a b. if b = 0 then Inl (OtherError, ''division by zero'')
                             else Inr (of_int a / of_int b)),
       scaled_int = dec_scaled_int,
       repr_compound = (\<lambda>v. ''[...]'') \<rparr>"

text \<open>
  The clock reads 1700000000.5; every balance is 3 * 10^18 wei; every transaction gets
  the hash 0xabc and is mined.
\<close>

definition demo_world :: "rat world" where
  "demo_world =
     \<lparr> time_time = 3400000001 / 2,
       int_time = 1700000000,
       wallet_address = ''0xW'',
       dai_address = ''0xD'',
       pol_address = ''0xP'',
       to_wei = (\<lambda>s. Inr 1000000000000000000),
       eth_send_transaction = (\<lambda>t. Inr ''0xabc''),
       eth_wait_for_transaction_receipt = (\<lambda>h. Inr h),
       eth_get_balance = (\<lambda>a. Inr 3000000000000000000),
       router_contract = Inr (),
       price_feed_contract = Inr (),
       addLiquidity_transact = (\<lambda>a b x y d. Inr ''0xabc''),
       getAmountsOut_call = (\<lambda>x p. Inr [x, x]),
       swapExactTokens = (\<lambda>x y p d. Inr ()),
       eth_get_transaction_count = Inr 7,
       buildTransaction = (\<lambda>n. Inr ''tx''),
       sign_transaction = (\<lambda>t. Inr ''signed''),
       eth_send_raw_transaction = (\<lambda>r. Inr ''0xabc''),
       latestAnswer_call = Inr 50000000,
       open_log_append = Inr () \<rparr>"


definition empty_state :: "rat state" where
  "empty_state = \<lparr> log_file = [], calls = [] \<rparr>"

text \<open>A log of two well-formed lines.\<close>

definition short_log :: string where
  "short_log = ''1,2.5,3'' @ newline @ ''2,4,5'' @ newline"

text \<open>
  Ten well-formed lines. In \<open>buy_log\<close> the last row has first amount 200 against a window
  average of 110, and second amount 10 against 91. In \<open>rebalance_log\<close> the last row has
  first amount 10 against an average of 91, and second amount 100 against 100.
\<close>

definition nine_rows :: string where
  "nine_rows = concat (replicate 9 (''1700000000,100,100'' @ newline))"

definition buy_log :: string where
  "buy_log = nine_rows @ ''1700000001,200,10'' @ newline"

definition rebalance_log :: string where
  "rebalance_log = nine_rows @ ''1700000001,10,100'' @ newline"

definition rebalance_payload :: "rat pydict" where
  "rebalance_payload =
     [(''token_a'', PStr ''0xA''), (''token_b'', PStr ''0xB''),
      (''amount_a'', PInt 1), (''amount_b'', PInt 2)]"


definition zero_payload :: "rat pydict" where
  "zero_payload =
     [(''token_a'', PStr ''0xA''), (''token_b'', PStr ''0xB''),
      (''amount_a'', PInt 0), (''amount_b'', PInt 2)]"

definition buy_payload :: "rat pydict" where
  "buy_payload = [(''amount_in_usd'', PInt 10)]"


section \<open>What a successful pipeline run leaves in the log\<close>


section \<open>Properties of the log reader and the rebalance signal\<close>




text \<open>
  Claim C3. When the log parses to fewer than 10 entries, \<^verbatim>\<open>get_rebalance_insights\<close>
  returns the decision with \<open>buy\<close>, \<open>sell\<close> and \<open>rebalance\<close> all false, with status 200.
\<close>

theorem short_log_all_false:
  "read_log py content = Inr data \<Longrightarrow> length data < 10 \<Longrightarrow>
     get_rebalance_insights py content =
       Inr ([(''buy'', PBool False), (''sell'', PBool False), (''rebalance'', PBool False)], 200)"
  by (simp add: get_rebalance_insights_def decide_def window_size_def insights_body_def)

lemma read_short_log: "read_log dec_python short_log = Inr [(1, 5 / 2, 3), (2, 4, 5)]"
  by code_simp

theorem short_log_all_false_witness:
  "read_log dec_python short_log = Inr [(1, 5 / 2, 3), (2, 4, 5)]
   \<and> length [(1, 5 / 2, 3), (2, 4, 5 :: rat)] < 10
   \<and> get_rebalance_insights dec_python short_log =
       Inr ([(''buy'', PBool False), (''sell'', PBool False), (''rebalance'', PBool False)], 200)"
proof -
  have l: "length [(1 :: int, 5 / 2 :: rat, 3 :: rat), (2, 4, 5)] < 10" by simp
  show ?thesis using read_short_log l short_log_all_false [OF read_short_log l] by simp
qed

text \<open>
  Claim C4. The decision rules are a priority chain. When the log parses to at least 10
  entries and its last entry meets both the buy condition (first amount above 1.1 times
  the window average) and the rebalance condition (first amount below 0.9 times its
  average, or second amount below 0.9 times its average), the decision is \<open>buy\<close> alone:
  \<open>sell\<close> and \<open>rebalance\<close> are false.
\<close>

theorem buy_wins_over_rebalance:
  "read_log py content = Inr data \<Longrightarrow> 10 \<le> length data \<Longrightarrow>
     buy_cond py data \<Longrightarrow> rebalance_cond py data \<Longrightarrow>
     get_rebalance_insights py content =
       Inr ([(''buy'', PBool True), (''sell'', PBool False), (''rebalance'', PBool False)], 200)"
  by (simp add: get_rebalance_insights_def decide_def window_size_def insights_body_def)

lemma read_buy_log:
  "read_log dec_python buy_log
     = Inr (replicate 9 (1700000000, 100, 100) @ [(1700000001, 200, 10)])"
  by code_simp

theorem buy_wins_over_rebalance_witness:
  "buy_cond dec_python (replicate 9 (1700000000, 100, 100) @ [(1700000001, 200, 10)])
   \<and> rebalance_cond dec_python (replicate 9 (1700000000, 100, 100) @ [(1700000001, 200, 10)])
   \<and> get_rebalance_insights dec_python buy_log =
       Inr ([(''buy'', PBool True), (''sell'', PBool False), (''rebalance'', PBool False)], 200)"
proof -
  let ?d = "replicate 9 (1700000000, 100, 100) @ [(1700000001, 200, 10 :: rat)]"
  have l: "10 \<le> length ?d" by simp
  have b: "buy_cond dec_python ?d" by code_simp
  have r: "rebalance_cond dec_python ?d" by code_simp
  show ?thesis using b r buy_wins_over_rebalance [OF read_buy_log l b r] by simp
qed



text \<open>
  Claim C7. Every failure is caught at the endpoint and turned into a JSON error body.
  \<^verbatim>\<open>get_rebalance_insights\<close> has no \<^verbatim>\<open>try\<close>, unlike every other view: on a log whose only
  line is \<^verbatim>\<open>abc\<close> the ValueError of the unpacking leaves the view uncaught.
\<close>

theorem insights_error_escapes:
  "get_rebalance_insights dec_python (''abc'' @ newline) = Inl ValueError"
  by code_simp

section \<open>Properties of the views\<close>

lemma auto_rebalance_state: "snd (auto_rebalance py w data s) = s"
  by (auto simp: auto_rebalance_def tuple_json_def split: sum.splits)

lemma auto_rebalance_always_raises: "\<exists>e. auto_rebalance py w data s = (Uncaught e, s)"
  by (auto simp: auto_rebalance_def tuple_json_def split: sum.splits)

lemma get_pol_price_no_submit:
  "filter (\<lambda>c. is_submit (fst c)) (calls (snd (get_pol_price py w s)))
     = filter (\<lambda>c. is_submit (fst c)) (calls s)"
  unfolding get_pol_price_def try_except_def then_do_def client_def lift_def ret_def logger_write_def
  by (auto split: sum.splits prod.splits)

lemma get_pol_price_no_receipt:
  "(WaitForReceipt h, b) \<notin> set (drop (length (calls s)) (calls (snd (get_pol_price py w s))))"
  unfolding get_pol_price_def try_except_def then_do_def client_def lift_def ret_def logger_write_def
  by (auto split: sum.splits prod.splits)

text \<open>
  Claim C1. \<^verbatim>\<open>auto_rebalance\<close> submits a transaction only when the insights recommend a
  rebalance, and otherwise answers with a no-op success. On an empty log and a complete
  payload the insights are all false, and the view answers nothing: the call
  \<^verbatim>\<open>insights_response.json()\<close> raises AttributeError, which leaves the view. The state is
  unchanged.
\<close>

theorem auto_rebalance_idle_raises:
  "get_rebalance_insights dec_python (log_file empty_state)
     = Inr (insights_body (False, False, False), 200)
   \<and> auto_rebalance dec_python demo_world rebalance_payload empty_state
       = (Uncaught AttributeError, empty_state)"
  by code_simp

lemma auto_rebalance_recommended_raises:
  "get_rebalance_insights dec_python rebalance_log = Inr (insights_body (False, False, True), 200)
   \<and> auto_rebalance dec_python demo_world rebalance_payload \<lparr>log_file = rebalance_log, calls = []\<rparr>
       = (Uncaught AttributeError, \<lparr>log_file = rebalance_log, calls = []\<rparr>)"
  by code_simp

text \<open>
  Claim C2. For every payload of POST /buy-pol whose \<^verbatim>\<open>amount_in_usd\<close> passes the presence
  check (it is not \<^verbatim>\<open>None\<close>), the view answers 500 with the TypeError of dividing by the
  tuple that \<^verbatim>\<open>get_pol_price()\<close> returns; it never answers with a transaction hash, and it
  submits no transaction.
\<close>

theorem buy_pol_always_500:
  assumes "\<not> is_None (dict_get data ''amount_in_usd'')"
  shows "fst (buy_pol py w data s) =
           Returned [(''error'', PStr (''unsupported operand type(s) for /: ''
             @ quoted (type_name (dict_get data ''amount_in_usd'')) @ '' and '' @ quoted ''tuple''))] 500
         \<and> filter (\<lambda>c. is_submit (fst c)) (calls (snd (buy_pol py w data s)))
             = filter (\<lambda>c. is_submit (fst c)) (calls s)"
proof -
  obtain r s1 where g: "get_pol_price py w s = (r, s1)" by (cases "get_pol_price py w s")
  have c: "filter (\<lambda>c. is_submit (fst c)) (calls s1) = filter (\<lambda>c. is_submit (fst c)) (calls s)"
    using get_pol_price_no_submit [of py w s] g by simp
  have "buy_pol py w data s =
          (Returned (error_body (TypeError, ''unsupported operand type(s) for /: ''
             @ quoted (type_name (dict_get data ''amount_in_usd'')) @ '' and '' @ quoted ''tuple'')) 500,
           snd (logger_write (''Error buying POL: '' @ ''unsupported operand type(s) for /: ''
             @ quoted (type_name (dict_get data ''amount_in_usd'')) @ '' and '' @ quoted ''tuple'') s1))"
    using assms g
    by (simp add: buy_pol_def Let_def try_except_def then_do_def lift_def truediv_by_tuple_def on_error_def)
  then show ?thesis using c by (simp add: error_body_def logger_write_def)
qed

theorem buy_pol_always_500_witness:
  "\<not> is_None (dict_get buy_payload ''amount_in_usd'')
   \<and> fst (buy_pol dec_python demo_world buy_payload empty_state)
       = Returned [(''error'', PStr (''unsupported operand type(s) for /: '' @ quoted ''int''
                     @ '' and '' @ quoted ''tuple''))] 500"
proof -
  have h: "\<not> is_None (dict_get buy_payload ''amount_in_usd'')" by code_simp
  have t: "type_name (dict_get buy_payload ''amount_in_usd'') = ''int''" by code_simp
  show ?thesis using h buy_pol_always_500 [OF h, of dec_python demo_world empty_state] t by simp
qed

text \<open>
  Claim C5, as stated: every mutating endpoint answers 400 on a payload that misses a
  required field. POST /auto-rebalance does not: it evaluates the insights before it
  looks at the payload, and on an empty log and a payload without \<^verbatim>\<open>token_b\<close> it answers
  nothing, the AttributeError leaving the view.
\<close>

theorem auto_rebalance_missing_field_not_400:
  "is_None (dict_get [(''token_a'', PStr ''0xA'')] ''token_b'')
   \<and> fst (handle AutoRebalance dec_python demo_world [(''token_a'', PStr ''0xA'')] empty_state)
       = Uncaught AttributeError"
  by code_simp

text \<open>
  Claim C5, amended. For POST /send, /buy-pol and /rebalance, a payload in which a
  required field is absent or null gets the 400 response \<^verbatim>\<open>Missing required parameters\<close>
  and leaves the state as it was: no call on the chain client, nothing appended to the
  log. For POST /auto-rebalance such a payload leaves the state as it was too.
\<close>

theorem missing_field_rejected:
  assumes "k \<in> set (required_fields ep)" and "is_None (dict_get data k)"
  shows "(ep \<noteq> AutoRebalance \<longrightarrow> handle ep py w data s = (Returned missing_parameters 400, s))
         \<and> snd (handle ep py w data s) = s"
proof (cases ep)
  case Send
  then show ?thesis using assms by (auto simp: send_transaction_def Let_def)
next
  case BuyPol
  then show ?thesis using assms by (auto simp: buy_pol_def Let_def)
next
  case Rebalance
  then show ?thesis using assms
    by (auto simp: rebalance_def Let_def py_all_def is_None_def split: pyval.splits)
next
  case AutoRebalance
  then show ?thesis using auto_rebalance_state [of py w data s] by simp
qed

theorem missing_field_rejected_witness:
  "''amount_in_pol'' \<in> set (required_fields Send)
   \<and> is_None (dict_get [(''recipient_address'', PStr ''0xR'')] ''amount_in_pol'')
   \<and> Send \<noteq> AutoRebalance
   \<and> handle Send dec_python demo_world [(''recipient_address'', PStr ''0xR'')] empty_state
       = (Returned missing_parameters 400, empty_state)"
proof -
  have k: "''amount_in_pol'' \<in> set (required_fields Send)" by simp
  have n: "is_None (dict_get [(''recipient_address'', PStr ''0xR'')] ''amount_in_pol'')" by code_simp
  show ?thesis
    using k n missing_field_rejected [OF k n, of dec_python demo_world empty_state] by simp
qed

text \<open>
  Claim C10, as stated: POST /rebalance and POST /auto-rebalance answer 400 on a payload
  with a falsy field. POST /auto-rebalance does not: with \<^verbatim>\<open>amount_a = 0\<close> and a log of two
  entries (so that no rebalance is recommended) it answers nothing, the AttributeError
  leaving the view.
\<close>

theorem auto_rebalance_falsy_field_not_400:
  "\<not> truthy dec_python (dict_get zero_payload ''amount_a'')
   \<and> get_rebalance_insights dec_python short_log = Inr (insights_body (False, False, False), 200)
   \<and> fst (auto_rebalance dec_python demo_world zero_payload \<lparr>log_file = short_log, calls = []\<rparr>)
       = Uncaught AttributeError"
  by code_simp

text \<open>
  Claim C10, amended. POST /rebalance checks its four fields for truthiness: a payload
  in which some required field is falsy (0, the empty string, null or absent) gets the
  400 response \<^verbatim>\<open>Missing required parameters\<close> and leaves the state as it was, and the
  answer is the one the payload gets with that field removed. POST /auto-rebalance
  leaves the state as it was on such a payload.
\<close>

theorem falsy_field_rejected:
  assumes "k \<in> set (required_fields Rebalance)" and "\<not> truthy py (dict_get data k)"
  shows "rebalance py w data s = (Returned missing_parameters 400, s)
         \<and> rebalance py w (filter (\<lambda>kv. fst kv \<noteq> k) data) s = rebalance py w data s
         \<and> snd (auto_rebalance py w data s) = s"
proof -
  have a: "rebalance py w data s = (Returned missing_parameters 400, s)"
    using assms by (auto simp: rebalance_def Let_def py_all_def)
  have "map_of (filter (\<lambda>kv. fst kv \<noteq> k) data) k = None"
    by (induction data) auto
  then have "dict_get (filter (\<lambda>kv. fst kv \<noteq> k) data) k = PNone"
    by (simp add: dict_get_def)
  then have "\<not> truthy py (dict_get (filter (\<lambda>kv. fst kv \<noteq> k) data) k)" by simp
  then have b: "rebalance py w (filter (\<lambda>kv. fst kv \<noteq> k) data) s = (Returned missing_parameters 400, s)"
    using assms(1) by (auto simp: rebalance_def Let_def py_all_def)
  show ?thesis using a b auto_rebalance_state [of py w data s] by simp
qed

theorem falsy_field_rejected_witness:
  "''amount_a'' \<in> set (required_fields Rebalance)
   \<and> \<not> truthy dec_python (dict_get zero_payload ''amount_a'')
   \<and> rebalance dec_python demo_world zero_payload empty_state
       = (Returned missing_parameters 400, empty_state)
   \<and> rebalance dec_python demo_world (filter (\<lambda>kv. fst kv \<noteq> ''amount_a'') zero_payload) empty_state
       = rebalance dec_python demo_world zero_payload empty_state"
proof -
  have k: "''amount_a'' \<in> set (required_fields Rebalance)" by simp
  have n: "\<not> truthy dec_python (dict_get zero_payload ''amount_a'')" by code_simp
  show ?thesis using k n falsy_field_rejected [OF k n, of demo_world empty_state] by simp
qed

subsection \<open>The success path\<close>



lemma buy_pol_no_receipt:
  "(WaitForReceipt h, b) \<notin> set (drop (length (calls s)) (calls (snd (buy_pol py w data s))))"
proof (cases "is_None (dict_get data ''amount_in_usd'')")
  case True
  then show ?thesis by (simp add: buy_pol_def Let_def)
next
  case False
  obtain r s1 where g: "get_pol_price py w s = (r, s1)" by (cases "get_pol_price py w s")
  have "calls (snd (buy_pol py w data s)) = calls s1"
    using False g
    by (simp add: buy_pol_def Let_def try_except_def then_do_def lift_def truediv_by_tuple_def
        on_error_def logger_write_def)
  then show ?thesis using get_pol_price_no_receipt [of h b s py w] g by simp
qed

text \<open>
  No run of POST /buy-pol or POST /auto-rebalance obtains a receipt: the first stops at
  the division by a tuple, the second at \<^verbatim>\<open>insights_response.json()\<close>.
\<close>

lemma no_receipt_buy_pol_auto_rebalance:
  "ep = BuyPol \<or> ep = AutoRebalance \<Longrightarrow>
     (WaitForReceipt h, b) \<notin> set (drop (length (calls s)) (calls (snd (handle ep py w data s))))"
  using buy_pol_no_receipt [of h b s py w data] auto_rebalance_state [of py w data s] by auto

text \<open>
  The success path of \<^verbatim>\<open>auto_rebalance\<close>, run on its own with insights that recommend a
  rebalance: it answers 200 with the hash, and leaves in the log only the logger's line.
  Unlike \<^verbatim>\<open>rebalance\<close> it writes no entry line.
\<close>

lemma auto_rebalance_body_writes_no_entry:
  "auto_rebalance_body dec_python demo_world (insights_body (False, False, True)) rebalance_payload
       empty_state
     = (Returned (hash_body ''0xabc'') 200,
        \<lparr>log_file = ''Auto-rebalanced 3 0xA for 6 0xB'' @ newline,
         calls = [(GetBalance (PStr ''0xA''), True), (GetBalance (PStr ''0xB''), True),
                  (Contract, True), (ToWei ''3'', True),
                  (GetAmountsOut 1000000000000000000 [PStr ''0xA'', PStr ''0xB''], True),
                  (ToWei ''3'', True),
                  (SwapExactTokens 1000000000000000000 1000000000000000000
                     [PStr ''0xA'', PStr ''0xB''] 1700000100, True),
                  (GetTransactionCount, True), (BuildTransaction 7, True),
                  (SendTransaction (Built ''tx''), True), (WaitForReceipt ''0xabc'', True)]\<rparr>)"
  by code_simp






text \<open>
  Claim C9. Appending an entry as a view's success path does, and then reading the log,
  gives the entry back as the last element. A successful POST /rebalance on an empty
  log writes the logger's line and the entry line \<^verbatim>\<open>1700000000.5,3,6\<close>; reading that log
  fails with ValueError. The entry line alone fails too: the writer prints
  \<^verbatim>\<open>time.time()\<close>, a float, and the reader applies \<^verbatim>\<open>int\<close> to it.
\<close>

theorem written_entry_unreadable:
  "fst (rebalance dec_python demo_world rebalance_payload empty_state)
     = Returned (hash_body ''0xabc'') 200
   \<and> log_file (snd (rebalance dec_python demo_world rebalance_payload empty_state))
       = ''Rebalanced tokens: 3 of 0xA, 6 of 0xB'' @ newline @ ''1700000000.5,3,6'' @ newline
   \<and> read_log dec_python (log_file (snd (rebalance dec_python demo_world rebalance_payload empty_state)))
       = Inl ValueError
   \<and> read_log dec_python (''1700000000.5,3,6'' @ newline) = Inl ValueError
   \<and> py_int ''1700000000.5'' = None"
  by code_simp

end
